theory Spec2Isabelle
  imports Complex_Main "HOL-Library.Word" "HOL-Library.Log_Nat" "HOL-Library.Signed_Division"
begin

unbundle bit_operations_syntax

section \<open>Glyph table\<close>

text \<open>
  Go strings are byte sequences, so a glyph row is a \<open>string\<close> of bytes. The block
  character U+2588 of the source is the three UTF-8 bytes E2 96 88. The rows below are
  written with \<open>#\<close> in place of the block character and expanded by \<open>glyph\<close>.
\<close>

definition block :: string where
  "block = [CHR 0xE2, CHR 0x96, CHR 0x88]"

definition glyph :: "string \<Rightarrow> string" where
  "glyph pic = concat (map (\<lambda>c. if c = CHR ''#'' then block else [c]) pic)"

definition digits :: "string list list" where
  "digits =
    [ [glyph ''#####'', glyph ''#   #'', glyph ''#   #'', glyph ''#   #'', glyph ''#####''],
      [glyph ''  #  '', glyph '' ##  '', glyph ''  #  '', glyph ''  #  '', glyph ''#####''],
      [glyph ''#####'', glyph ''    #'', glyph ''#####'', glyph ''#    '', glyph ''#####''],
      [glyph ''#####'', glyph ''    #'', glyph ''#####'', glyph ''    #'', glyph ''#####''],
      [glyph ''#   #'', glyph ''#   #'', glyph ''#####'', glyph ''    #'', glyph ''    #''],
      [glyph ''#####'', glyph ''#    '', glyph ''#####'', glyph ''    #'', glyph ''#####''],
      [glyph ''#####'', glyph ''#    '', glyph ''#####'', glyph ''#   #'', glyph ''#####''],
      [glyph ''#####'', glyph ''    #'', glyph ''   # '', glyph ''  #  '', glyph '' #   ''],
      [glyph ''#####'', glyph ''#   #'', glyph ''#####'', glyph ''#   #'', glyph ''#####''],
      [glyph ''#####'', glyph ''#   #'', glyph ''#####'', glyph ''    #'', glyph ''#####''] ]"

definition colon :: "string list" where
  "colon = [glyph '' '', glyph ''#'', glyph '' '', glyph ''#'', glyph '' '']"

definition pausedText :: "string list" where
  "pausedText =
    [ glyph ''#####  #####  #   #  #####  #####  #### '',
      glyph ''#   #  #   #  #   #  #      #      #   #'',
      glyph ''#####  #####  #   #  #####  #####  #   #'',
      glyph ''#      #   #  #   #      #  #      #   #'',
      glyph ''#      #   #  #####  #####  #####  #### '' ]"

text \<open>
  The number of characters (code points) of a UTF-8 string, as Go's
  \<open>utf8.RuneCountInString\<close> counts them: every byte that is not a continuation byte
  \<open>10xxxxxx\<close> starts one. This is the number of display columns of a glyph row.
\<close>

definition continuation_byte :: "char \<Rightarrow> bool" where
  "continuation_byte c \<longleftrightarrow> 128 \<le> (of_char c :: nat) \<and> (of_char c :: nat) < 192"

definition rune_count :: "string \<Rightarrow> nat" where
  "rune_count s = length (filter (\<lambda>c. \<not> continuation_byte c) s)"

section \<open>Renderer\<close>

text \<open>
  \<open>fmt.Sprintf("%02d", n)\<close> of the Go standard library: the decimal digits of \<open>n\<close>,
  padded with zeros on the left to a width of two, the sign counting towards the width.
\<close>

definition digit_char :: "nat \<Rightarrow> char" where
  "digit_char d = char_of (48 + d)"

fun dec :: "nat \<Rightarrow> string" where
  "dec n = (if n < 10 then [digit_char n] else dec (n div 10) @ [digit_char (n mod 10)])"

declare dec.simps [simp del]

definition pad0 :: "nat \<Rightarrow> string \<Rightarrow> string" where
  "pad0 w ds = replicate (w - length ds) (CHR ''0'') @ ds"

definition fmt_02d :: "int \<Rightarrow> string" where
  "fmt_02d n = (if n < 0 then CHR ''-'' # pad0 1 (dec (nat (- n))) else pad0 2 (dec (nat n)))"

definition timeStr :: "int \<Rightarrow> int \<Rightarrow> int \<Rightarrow> string" where
  "timeStr h m s = fmt_02d h @ '':'' @ fmt_02d m @ '':'' @ fmt_02d s"

text \<open>
  A slice index outside the slice is a run-time panic in Go, which ends the program.
\<close>

datatype panic = IndexOutOfRange int nat

text \<open>
  The body of the inner loop: the glyph row of one character of the time string. The
  index into the digit table is \<open>int(char - '0')\<close>.
\<close>

definition digit_index :: "char \<Rightarrow> int" where
  "digit_index char = int (of_char char) - 48"

definition glyph_row :: "char \<Rightarrow> nat \<Rightarrow> panic + string" where
  "glyph_row char row =
     (if char = CHR '':'' then Inr (colon ! row)
      else (let digit = digit_index char
            in if 0 \<le> digit \<and> digit < int (length digits)
               then Inr (digits ! nat digit ! row)
               else Inl (IndexOutOfRange digit (length digits))))"

fun render_line :: "string \<Rightarrow> nat \<Rightarrow> string \<Rightarrow> panic + string" where
  "render_line line row [] = Inr line"
| "render_line line row (char # rest) =
     (case glyph_row char row of
        Inl p \<Rightarrow> Inl p
      | Inr g \<Rightarrow> render_line (line @ g @ '' '') row rest)"

fun render_rows :: "string list \<Rightarrow> string \<Rightarrow> nat list \<Rightarrow> panic + string list" where
  "render_rows result ts [] = Inr result"
| "render_rows result ts (row # rows) =
     (case render_line [] row ts of
        Inl p \<Rightarrow> Inl p
      | Inr line \<Rightarrow> render_rows (result @ [line]) ts rows)"

text \<open>\<open>strings.Join\<close>.\<close>

fun join :: "string list \<Rightarrow> string \<Rightarrow> string" where
  "join [] sep = []"
| "join [x] sep = x"
| "join (x # y # ys) sep = x @ sep @ join (y # ys) sep"

definition getASCIITime :: "int \<Rightarrow> int \<Rightarrow> int \<Rightarrow> panic + string" where
  "getASCIITime h m s =
     (case render_rows [] (timeStr h m s) [0, 1, 2, 3, 4] of
        Inl p \<Rightarrow> Inl p
      | Inr result \<Rightarrow> Inr (join result [CHR 0x0A]))"

section \<open>Terminal mode controller\<close>

type_synonym uint32 = "32 word"
type_synonym uint8 = "8 word"

text \<open>The array \<open>Cc\<close> of 19 bytes is a list; \<open>well_formed\<close> states its length.\<close>

record Termios =
  Iflag :: uint32
  Oflag :: uint32
  Cflag :: uint32
  Lflag :: uint32
  Line :: uint8
  Cc :: "uint8 list"
  Ispeed :: uint32
  Ospeed :: uint32

definition well_formed :: "Termios \<Rightarrow> bool" where
  "well_formed t \<longleftrightarrow> length (Cc t) = 19"

definition ECHO :: uint32 where "ECHO = 0x00000008"
definition ICANON :: uint32 where "ICANON = 0x00000002"
definition VMIN :: nat where "VMIN = 0x6"
definition VTIME :: nat where "VTIME = 0x5"

text \<open>
  What the program does to its environment is recorded as a trace of effects. The
  terminal is the device behind standard input: \<open>tty\<close> holds its settings, and the
  two \<open>errno\<close> fields say how the device answers the \<open>TCGETS\<close> and \<open>TCSETS\<close>
  requests of \<open>ioctl\<close> (0 is success).
\<close>

type_synonym errno = nat

datatype effect =
    Ioctl_TCGETS
  | Ioctl_TCSETS Termios
  | Printf_error errno
  | Print string
  | Notify_signals
  | Go_watcher
  | New_ticker
  | Os_exit int

record World =
  tty :: Termios
  tcgets_errno :: errno
  tcsets_errno :: errno
  trace :: "effect list"

definition emit :: "effect \<Rightarrow> World \<Rightarrow> World" where
  "emit e w = w\<lparr>trace := trace w @ [e]\<rparr>"

definition makeRaw :: "World \<Rightarrow> (errno + Termios) \<times> World" where
  "makeRaw w =
     (let w1 = emit Ioctl_TCGETS w in
      if tcgets_errno w1 \<noteq> 0 then (Inl (tcgets_errno w1), w1)
      else
        (let termios = tty w1;
             oldTermios = termios;
             termios = termios\<lparr>Lflag := Lflag termios AND NOT (ICANON OR ECHO)\<rparr>;
             termios = termios\<lparr>Cc := (Cc termios)[VMIN := 1]\<rparr>;
             termios = termios\<lparr>Cc := (Cc termios)[VTIME := 0]\<rparr>;
             w2 = emit (Ioctl_TCSETS termios) w1
         in if tcsets_errno w2 \<noteq> 0 then (Inl (tcsets_errno w2), w2)
            else (Inr oldTermios, w2\<lparr>tty := termios\<rparr>)))"

definition restoreTerminal :: "Termios \<Rightarrow> World \<Rightarrow> errno option \<times> World" where
  "restoreTerminal oldState w =
     (let w1 = emit (Ioctl_TCSETS oldState) w in
      if tcsets_errno w1 \<noteq> 0 then (Some (tcsets_errno w1), w1)
      else (None, w1\<lparr>tty := oldState\<rparr>))"

text \<open>The settings that \<open>makeRaw\<close> derives from the settings it has read.\<close>

definition raw_of :: "Termios \<Rightarrow> Termios" where
  "raw_of t = t\<lparr>Lflag := Lflag t AND NOT (ICANON OR ECHO), Cc := (Cc t)[VMIN := 1, VTIME := 0]\<rparr>"

section \<open>Timer state and input watcher\<close>

text \<open>
  A \<open>time.Time\<close> is the number of nanoseconds since the zero instant of Go's clock
  (so \<open>IsZero\<close> is equality with 0), a \<open>time.Duration\<close> a number of nanoseconds.
  Both are unbounded integers here: the 64-bit range of a duration, about 292 years,
  is not reached by a run of the program.
\<close>

type_synonym Time = int
type_synonym Duration = int

definition Second :: Duration where "Second = 1000000000"
definition Minute :: Duration where "Minute = 60 * Second"
definition Hour :: Duration where "Hour = 60 * Minute"

definition IsZero :: "Time \<Rightarrow> bool" where
  "IsZero t \<longleftrightarrow> t = 0"

text \<open>\<open>time.Since(t)\<close>, with the reading \<open>now\<close> of the clock at the call.\<close>

definition Since :: "Time \<Rightarrow> Time \<Rightarrow> Duration" where
  "Since now t = now - t"

record TimerState =
  isPaused :: bool
  startTime :: Time
  pausedDuration :: Duration
  pauseStart :: Time

text \<open>The variables as \<open>RunTimer\<close> declares them, \<open>now\<close> being the start instant.\<close>

definition initial :: "Time \<Rightarrow> TimerState" where
  "initial now = \<lparr>isPaused = False, startTime = now, pausedDuration = 0, pauseStart = 0\<rparr>"

text \<open>The branch of the watcher for the bytes \<open>'p'\<close> and \<open>'P'\<close>.\<close>

definition toggle :: "Time \<Rightarrow> TimerState \<Rightarrow> TimerState" where
  "toggle now st =
     (let st = st\<lparr>isPaused := \<not> isPaused st\<rparr> in
      if isPaused st then st\<lparr>pauseStart := now\<rparr>
      else if \<not> IsZero (pauseStart st)
           then st\<lparr>pausedDuration := pausedDuration st + Since now (pauseStart st)\<rparr>
           else st)"

text \<open>
  One round of the watcher's loop, after \<open>Read\<close> has put the byte \<open>b\<close> into the buffer;
  \<open>now\<close> is the reading of the clock while the byte is handled. The third component
  is the exit code if the round ended the process. The byte values are
  \<open>'p'\<close> = 112, \<open>'P'\<close> = 80 and \<open>'q'\<close> = 113.
\<close>

definition watcher_step ::
  "Termios \<Rightarrow> uint8 \<Rightarrow> Time \<Rightarrow> TimerState \<Rightarrow> World \<Rightarrow> TimerState \<times> World \<times> int option" where
  "watcher_step oldState b now st w =
     (let st1 = (if b = 112 \<or> b = 80 then toggle now st else st) in
      if b = 3 \<or> b = 113
      then (let (r, w1) = restoreTerminal oldState w in (st1, emit (Os_exit 0) w1, Some 0))
      else (st1, w, None))"

section \<open>Floating-point arithmetic of the decomposition\<close>

text \<open>
  \<open>Duration.Hours\<close>, \<open>Minutes\<close> and \<open>Seconds\<close> of the Go standard library return
  \<open>float64\<close>. A finite \<open>float64\<close> is modelled by the rational number it denotes, and
  every operation yields the exact result rounded to the nearest number with a
  significand of 53 bits, ties to the even significand, as IEEE 754 prescribes.
  Exponent overflow and subnormal numbers are left out: every value that occurs here
  is 0 or has a magnitude between \<open>2 powi (- 42)\<close> and \<open>2 powi 64\<close>.
\<close>

definition round_half_even :: "rat \<Rightarrow> int" where
  "round_half_even x =
     (let f = \<lfloor>x\<rfloor>; r = x - of_int f
      in if r < 1 / 2 then f else if 1 / 2 < r then f + 1 else if even f then f else f + 1)"

text \<open>The integer \<open>k\<close> with \<open>2 powi k \<le> x < 2 powi (k + 1)\<close>, for positive \<open>x\<close>.\<close>

definition floor_log2 :: "rat \<Rightarrow> int" where
  "floor_log2 x =
     (let (p, q) = quotient_of x; k = bitlen p - bitlen q
      in if 2 powi k \<le> x then k else k - 1)"

definition float64_round :: "rat \<Rightarrow> rat" where
  "float64_round x =
     (if x = 0 then 0
      else (let e = floor_log2 \<bar>x\<bar> - 52
            in of_int (round_half_even (x / 2 powi e)) * 2 powi e))"

definition float64_of_int :: "int \<Rightarrow> rat" where
  "float64_of_int n = float64_round (of_int n)"

definition float64_add :: "rat \<Rightarrow> rat \<Rightarrow> rat" where
  "float64_add a b = float64_round (a + b)"

definition float64_div :: "rat \<Rightarrow> rat \<Rightarrow> rat" where
  "float64_div a b = float64_round (a / b)"

text \<open>The conversion \<open>int(f)\<close> discards the fraction.\<close>

definition int_of_float64 :: "rat \<Rightarrow> int" where
  "int_of_float64 x = (if 0 \<le> x then \<lfloor>x\<rfloor> else \<lceil>x\<rceil>)"

text \<open>
  Go's \<open>/\<close> and \<open>%\<close> on integers truncate towards zero: \<open>sdiv\<close> and \<open>smod\<close>.
\<close>

definition Hours :: "Duration \<Rightarrow> rat" where
  "Hours d =
     (let hour = d sdiv Hour; nsec = d smod Hour
      in float64_add (float64_of_int hour)
           (float64_div (float64_of_int nsec) (60 * 60 * 1000000000)))"

definition Minutes :: "Duration \<Rightarrow> rat" where
  "Minutes d =
     (let min = d sdiv Minute; nsec = d smod Minute
      in float64_add (float64_of_int min)
           (float64_div (float64_of_int nsec) (60 * 1000000000)))"

definition Seconds :: "Duration \<Rightarrow> rat" where
  "Seconds d =
     (let sec = d sdiv Second; nsec = d smod Second
      in float64_add (float64_of_int sec)
           (float64_div (float64_of_int nsec) 1000000000))"

section \<open>Timer loop\<close>

text \<open>The elapsed time of one tick, and its decomposition.\<close>

definition elapsed :: "Time \<Rightarrow> TimerState \<Rightarrow> Duration" where
  "elapsed now st = Since now (startTime st) - pausedDuration st"

definition hms :: "Duration \<Rightarrow> int \<times> int \<times> int" where
  "hms d =
     (let hours = int_of_float64 (Hours d);
          minutes = int_of_float64 (Minutes d) smod 60;
          seconds = int_of_float64 (Seconds d) smod 60
      in (hours, minutes, seconds))"

definition clearScreen :: "World \<Rightarrow> World" where
  "clearScreen w = emit (Print (CHR 0x1B # ''[H'' @ CHR 0x1B # ''[2J'')) w"

definition tick :: "Time \<Rightarrow> TimerState \<Rightarrow> World \<Rightarrow> panic option \<times> World" where
  "tick now st w =
     (let w1 = clearScreen w;
          (hours, minutes, seconds) = hms (elapsed now st);
          w2 = emit (Print (CHR 0x1B # ''[1;1H'')) w1
      in case getASCIITime hours minutes seconds of
           Inl p \<Rightarrow> (Some p, w2)
         | Inr frame \<Rightarrow>
             (let w3 = emit (Print (frame @ [CHR 0x0A])) w2 in
              if isPaused st
              then (None, emit (Print (join pausedText [CHR 0x0A] @ [CHR 0x0A]))
                            (emit (Print (CHR 0x1B # ''[1;1H'')) w3))
              else (None, w3)))"

text \<open>
  The two tasks of the program are interleaved as a sequence of events, each handled
  as one step: the watcher has read a byte, the ticker has fired, or a termination
  signal has arrived. The instant of an event is the reading of the clock while it is
  handled.
\<close>

datatype event = Key uint8 Time | Tick Time | Signal

datatype outcome = Running | Returned | Exited int | Panicked panic

text \<open>
  The deferred calls run when \<open>RunTimer\<close> returns or panics, the last deferred first:
  the cursor is shown again, then the terminal is restored.
\<close>

definition deferred :: "Termios \<Rightarrow> World \<Rightarrow> World" where
  "deferred oldState w = snd (restoreTerminal oldState (emit (Print (CHR 0x1B # ''[?25h'')) w))"

fun loop :: "Termios \<Rightarrow> event list \<Rightarrow> TimerState \<Rightarrow> World \<Rightarrow> outcome \<times> TimerState \<times> World" where
  "loop oldState [] st w = (Running, st, w)"
| "loop oldState (Key b now # evs) st w =
     (case watcher_step oldState b now st w of
        (st1, w1, Some code) \<Rightarrow> (Exited code, st1, w1)
      | (st1, w1, None) \<Rightarrow> loop oldState evs st1 w1)"
| "loop oldState (Tick now # evs) st w =
     (case tick now st w of
        (Some p, w1) \<Rightarrow> (Panicked p, st, deferred oldState w1)
      | (None, w1) \<Rightarrow> loop oldState evs st w1)"
| "loop oldState (Signal # evs) st w = (Returned, st, deferred oldState (clearScreen w))"

definition RunTimer :: "Time \<Rightarrow> event list \<Rightarrow> World \<Rightarrow> outcome \<times> World" where
  "RunTimer now evs w =
     (case makeRaw w of
        (Inl err, w1) \<Rightarrow> (Returned, emit (Printf_error err) w1)
      | (Inr oldState, w1) \<Rightarrow>
          (let w2 = emit Notify_signals w1;
               st = initial now;
               w3 = emit Go_watcher w2;
               w4 = emit (Print (CHR 0x1B # ''[?25l'')) (clearScreen w3);
               w5 = emit New_ticker w4;
               (out, st1, w6) = loop oldState evs st w5
           in (out, w6)))"

section \<open>Notions of the specification\<close>

text \<open>The characters of a timestamp, and the glyph the table holds for each.\<close>

definition is_digit :: "char \<Rightarrow> bool" where
  "is_digit c \<longleftrightarrow> 48 \<le> (of_char c :: nat) \<and> (of_char c :: nat) \<le> 57"

definition time_char :: "char \<Rightarrow> bool" where
  "time_char c \<longleftrightarrow> is_digit c \<or> c = CHR '':''"

definition glyph_of :: "char \<Rightarrow> string list" where
  "glyph_of c = (if c = CHR '':'' then colon else digits ! (of_char c - 48))"

definition glyph_width :: "char \<Rightarrow> nat" where
  "glyph_width c = (if c = CHR '':'' then 1 else 5)"

text \<open>
  A row of the banner as the specification words it, the glyph rows of the characters
  separated by one space column, and the whole banner of five such rows.
\<close>

definition spec_line :: "string \<Rightarrow> nat \<Rightarrow> string" where
  "spec_line ts row = join (map (\<lambda>c. glyph_of c ! row) ts) '' ''"

definition spec_render :: "int \<Rightarrow> int \<Rightarrow> int \<Rightarrow> string" where
  "spec_render h m s = join (map (spec_line (timeStr h m s)) [0, 1, 2, 3, 4]) [CHR 0x0A]"

text \<open>A row in which every glyph row is followed by one space column, the last too.\<close>

definition padded_line :: "string \<Rightarrow> nat \<Rightarrow> string" where
  "padded_line ts row = concat (map (\<lambda>c. glyph_of c ! row @ '' '') ts)"

text \<open>The lines of a text: the pieces between its line breaks.\<close>

fun split_lines :: "string \<Rightarrow> string \<Rightarrow> string list" where
  "split_lines cur [] = [cur]"
| "split_lines cur (c # cs) =
     (if c = CHR 0x0A then cur # split_lines [] cs else split_lines (cur @ [c]) cs)"

definition lines_of :: "string \<Rightarrow> string list" where
  "lines_of s = split_lines [] s"



text \<open>
  The elapsed time of the specification's invariant, which leaves out the pause in
  progress.
\<close>

definition spec_elapsed :: "Time \<Rightarrow> TimerState \<Rightarrow> Duration" where
  "spec_elapsed now st =
     now - startTime st - pausedDuration st - (if isPaused st then now - pauseStart st else 0)"

text \<open>
  The sum of resume time minus pause time over the completed pauses of a sequence of
  toggle instants; a last pause without a resume does not count.
\<close>

fun completed_pauses :: "Time list \<Rightarrow> Duration" where
  "completed_pauses (p # r # ts) = (r - p) + completed_pauses ts"
| "completed_pauses [p] = 0"
| "completed_pauses [] = 0"

section \<open>Example values\<close>

text \<open>The usual settings of a Linux terminal in canonical mode, and a run on it.\<close>

definition example_termios :: Termios where
  "example_termios =
     \<lparr>Iflag = 0x4500, Oflag = 0x5, Cflag = 0xBF, Lflag = 0x8A3B, Line = 0,
      Cc = [3, 28, 127, 21, 4, 0, 1, 0, 17, 19, 26, 0, 18, 15, 23, 22, 0, 0, 0],
      Ispeed = 0, Ospeed = 0\<rparr>"

definition example_world :: World where
  "example_world = \<lparr>tty = example_termios, tcgets_errno = 0, tcsets_errno = 0, trace = []\<rparr>"

definition example_state :: TimerState where
  "example_state =
     \<lparr>isPaused = True, startTime = 1000 * Second, pausedDuration = 3 * Second,
      pauseStart = 1020 * Second\<rparr>"

section \<open>The input watcher\<close>

text \<open>
  Claim C8. A byte other than \<open>'p'\<close> (112), \<open>'P'\<close> (80), \<open>'q'\<close> (113), \<open>'Q'\<close> (81) and
  3 leaves the timer state and the terminal as they are and does not end the process:
  the round of the watcher returns the state and the world unchanged, with no exit
  code, and the loop goes on.
\<close>

theorem watcher_ignores_other_bytes:
  assumes "b \<notin> {112, 80, 113, 81, 3}"
  shows "watcher_step oldState b now st w = (st, w, None) \<and>
         loop oldState [Key b now] st w = (Running, st, w)"
  using assms by (simp add: watcher_step_def)

theorem watcher_ignores_other_bytes_witness:
  "(120 :: uint8) \<notin> {112, 80, 113, 81, 3} \<and>
   watcher_step example_termios 120 (1030 * Second) example_state example_world
     = (example_state, example_world, None) \<and>
   loop example_termios [Key 120 (1030 * Second)] example_state example_world
     = (Running, example_state, example_world)"
  using watcher_ignores_other_bytes
    [of 120 example_termios "1030 * Second" example_state example_world]
  by simp

text \<open>
  Claim C2. The bytes 3 and \<open>'q'\<close> (113) restore the terminal and then end the process
  with exit code 0. The byte \<open>'Q'\<close> (81) does not: the watcher compares with \<open>'q'\<close>
  only, although it accepts both \<open>'p'\<close> and \<open>'P'\<close> for the pause, so on \<open>'Q'\<close> nothing
  happens and the process goes on.
\<close>

theorem watcher_quit_bytes:
  "watcher_step oldState 81 now st w = (st, w, None) \<and>
   watcher_step oldState 113 now st w
     = (st, emit (Os_exit 0) (snd (restoreTerminal oldState w)), Some 0) \<and>
   watcher_step oldState 3 now st w
     = (st, emit (Os_exit 0) (snd (restoreTerminal oldState w)), Some 0) \<and>
   watcher_step oldState 80 now st w = (toggle now st, w, None) \<and>
   watcher_step oldState 112 now st w = (toggle now st, w, None)"
  by (simp add: watcher_step_def split: prod.splits)

section \<open>Elapsed time\<close>

text \<open>
  Claim C1. The timer starts at \<open>T0\<close> and is paused five seconds later. The elapsed
  time of the ticks at six and at seven seconds is six and seven seconds: it is not
  constant during the pause, and it is not the value of the specification's formula,
  which stays at five seconds. The loop subtracts the pauses that have ended and
  nothing for the pause in progress.
\<close>

theorem elapsed_counts_pause_in_progress:
  "isPaused (toggle (T0 + 5 * Second) (initial T0)) \<and>
   elapsed (T0 + 6 * Second) (toggle (T0 + 5 * Second) (initial T0)) = 6 * Second \<and>
   elapsed (T0 + 7 * Second) (toggle (T0 + 5 * Second) (initial T0)) = 7 * Second \<and>
   spec_elapsed (T0 + 6 * Second) (toggle (T0 + 5 * Second) (initial T0)) = 5 * Second \<and>
   spec_elapsed (T0 + 7 * Second) (toggle (T0 + 5 * Second) (initial T0)) = 5 * Second"
  by (simp add: elapsed_def spec_elapsed_def toggle_def initial_def Since_def Let_def)

section \<open>The formatted time string\<close>

lemma of_char_digit_char: "d < 10 \<Longrightarrow> (of_char (digit_char d) :: nat) = 48 + d"
  by (simp add: digit_char_def)

lemma is_digit_digit_char: "d < 10 \<Longrightarrow> is_digit (digit_char d)"
  by (simp add: is_digit_def of_char_digit_char)


lemma dec_digits: "list_all is_digit (dec n)"
proof (induction n rule: dec.induct)
  case (1 n)
  show ?case
  proof (cases "n < 10")
    case True
    then show ?thesis by (simp add: dec.simps [of n] is_digit_digit_char)
  next
    case False
    with 1 show ?thesis by (simp add: dec.simps [of n] is_digit_digit_char)
  qed
qed







lemma is_digit_zero: "is_digit (CHR ''0'')"
  by (simp add: is_digit_def)

lemma fmt_02d_digits: "0 \<le> n \<Longrightarrow> list_all is_digit (fmt_02d n)"
  using dec_digits [of "nat n"]
  by (auto simp: fmt_02d_def pad0_def is_digit_zero list_all_iff)

lemma timeStr_chars:
  "0 \<le> h \<Longrightarrow> 0 \<le> m \<Longrightarrow> 0 \<le> s \<Longrightarrow> list_all time_char (timeStr h m s)"
  using fmt_02d_digits [of h] fmt_02d_digits [of m] fmt_02d_digits [of s]
  by (auto simp: timeStr_def time_char_def list_all_iff)

lemma length_digits: "length digits = 10"
  by (simp add: digits_def)

lemma digit_index_range:
  "is_digit c \<Longrightarrow> 0 \<le> digit_index c \<and> digit_index c < int (length digits)"
  by (auto simp: is_digit_def digit_index_def length_digits)

lemma glyph_row_ok: "time_char c \<Longrightarrow> glyph_row c row = Inr (glyph_of c ! row)"
  by (auto simp: time_char_def glyph_row_def glyph_of_def Let_def is_digit_def
      digit_index_def length_digits nat_diff_distrib)

lemma render_line_ok:
  "list_all time_char ts \<Longrightarrow> render_line line row ts = Inr (line @ padded_line ts row)"
  by (induction ts arbitrary: line) (simp_all add: padded_line_def glyph_row_ok)

lemma render_rows_ok:
  "list_all time_char ts \<Longrightarrow>
     render_rows result ts rows = Inr (result @ map (padded_line ts) rows)"
  by (induction rows arbitrary: result) (simp_all add: render_line_ok)

lemma getASCIITime_ok:
  "list_all time_char (timeStr h m s) \<Longrightarrow>
     getASCIITime h m s
       = Inr (join (map (padded_line (timeStr h m s)) [0, 1, 2, 3, 4]) [CHR 0x0A])"
  unfolding getASCIITime_def by (simp only: render_rows_ok append_Nil sum.case)

lemma split_lines_append:
  "CHR 0x0A \<notin> set x \<Longrightarrow> split_lines cur (x @ rest) = split_lines (cur @ x) rest"
  by (induction x arbitrary: cur) auto

lemma split_lines_join:
  "xs \<noteq> [] \<Longrightarrow> list_all (\<lambda>x. CHR 0x0A \<notin> set x) xs \<Longrightarrow>
     split_lines cur (join xs [CHR 0x0A]) = (cur @ hd xs) # tl xs"
proof (induction xs "[CHR 0x0A]" arbitrary: cur rule: join.induct)
  case 1
  then show ?case by simp
next
  case (2 x)
  then show ?case using split_lines_append [of x cur "[]"] by simp
next
  case (3 x y ys)
  then show ?case
    using split_lines_append [of x cur "CHR 0x0A # join (y # ys) [CHR 0x0A]"] by simp
qed

lemma lines_of_join:
  "xs \<noteq> [] \<Longrightarrow> list_all (\<lambda>x. CHR 0x0A \<notin> set x) xs \<Longrightarrow>
     lines_of (join xs [CHR 0x0A]) = xs"
  by (simp add: lines_of_def split_lines_join)

lemma digits_rows:
  "list_all (\<lambda>g. length g = 5 \<and> list_all (\<lambda>r. CHR 0x0A \<notin> set r \<and> rune_count r = 5) g) digits"
  by (simp add: digits_def glyph_def block_def rune_count_def continuation_byte_def)

lemma colon_rows:
  "length colon = 5 \<and> list_all (\<lambda>r. CHR 0x0A \<notin> set r \<and> rune_count r = 1) colon"
  by (simp add: colon_def glyph_def block_def rune_count_def continuation_byte_def)

lemma glyph_of_row:
  assumes "time_char c" "row < 5"
  shows "CHR 0x0A \<notin> set (glyph_of c ! row) \<and> rune_count (glyph_of c ! row) = glyph_width c"
proof (cases "c = CHR '':''")
  case True
  with assms(2) colon_rows show ?thesis
    by (simp add: glyph_of_def glyph_width_def list_all_length)
next
  case False
  with assms(1) have d: "(of_char c :: nat) - 48 < length digits"
    by (auto simp: time_char_def is_digit_def length_digits)
  from digits_rows d have
    "length (digits ! (of_char c - 48)) = 5 \<and>
     list_all (\<lambda>r. CHR 0x0A \<notin> set r \<and> rune_count r = 5) (digits ! (of_char c - 48))"
    by (simp add: list_all_length)
  with assms(2) False show ?thesis
    by (simp add: glyph_of_def glyph_width_def list_all_length)
qed

lemma rune_count_append: "rune_count (a @ b) = rune_count a + rune_count b"
  by (simp add: rune_count_def)

lemma rune_count_space: "rune_count (CHR '' '' # xs) = Suc (rune_count xs)"
  by (simp add: rune_count_def continuation_byte_def)

lemma padded_line_facts:
  "list_all time_char ts \<Longrightarrow> row < 5 \<Longrightarrow>
     CHR 0x0A \<notin> set (padded_line ts row) \<and>
     rune_count (padded_line ts row) = sum_list (map (\<lambda>c. glyph_width c + 1) ts)"
proof (induction ts)
  case Nil
  then show ?case by (simp add: padded_line_def rune_count_def)
next
  case (Cons c ts)
  from Cons.prems have c: "time_char c" and ts: "list_all time_char ts" by simp_all
  from glyph_of_row [OF c Cons.prems(2)] Cons.IH [OF ts Cons.prems(2)]
  have "CHR 0x0A \<notin> set (glyph_of c ! row @ '' '' @ padded_line ts row) \<and>
        rune_count (glyph_of c ! row @ '' '' @ padded_line ts row)
          = glyph_width c + 1 + sum_list (map (\<lambda>c. glyph_width c + 1) ts)"
    by (simp add: rune_count_append rune_count_space)
  then show ?case by (simp add: padded_line_def)
qed





lemma fmt_02d_neg: "n < 0 \<Longrightarrow> hd (fmt_02d n) = CHR ''-'' \<and> fmt_02d n \<noteq> []"
  by (simp add: fmt_02d_def)

section \<open>The renderer\<close>

text \<open>
  Claim C9. For non-negative \<open>h\<close>, \<open>m\<close> and \<open>s\<close> every character of the formatted
  string is \<open>':'\<close> or a decimal digit whose index \<open>char - '0'\<close> lies within the ten
  entries of the digit table, and the renderer returns a banner without a panic. For
  every negative \<open>h\<close> the string starts with \<open>'-'\<close>, whose index is \<open>-3\<close>, and the
  renderer panics on the lookup.
\<close>

theorem glyph_index_in_bounds:
  "(0 \<le> h \<and> 0 \<le> m \<and> 0 \<le> s \<longrightarrow>
      list_all (\<lambda>c. c = CHR '':'' \<or>
                  is_digit c \<and> 0 \<le> digit_index c \<and> digit_index c < int (length digits))
        (timeStr h m s) \<and>
      (\<exists>out. getASCIITime h m s = Inr out)) \<and>
   (h < 0 \<longrightarrow>
      digit_index (hd (timeStr h m s)) = - 3 \<and>
      getASCIITime h m s = Inl (IndexOutOfRange (- 3) (length digits)))"
proof (intro conjI impI)
  assume a: "0 \<le> h \<and> 0 \<le> m \<and> 0 \<le> s"
  then have tc: "list_all time_char (timeStr h m s)" by (simp add: timeStr_chars)
  then show "list_all (\<lambda>c. c = CHR '':'' \<or>
                  is_digit c \<and> 0 \<le> digit_index c \<and> digit_index c < int (length digits))
        (timeStr h m s)"
    using digit_index_range by (auto simp: list_all_iff time_char_def)
  from getASCIITime_ok [OF tc] show "\<exists>out. getASCIITime h m s = Inr out" by blast
next
  assume h: "h < 0"
  then obtain rest where ts: "timeStr h m s = CHR ''-'' # rest"
    by (simp add: timeStr_def fmt_02d_def)
  show "digit_index (hd (timeStr h m s)) = - 3"
    by (simp add: ts digit_index_def)
  show "getASCIITime h m s = Inl (IndexOutOfRange (- 3) (length digits))"
    by (simp add: getASCIITime_def ts glyph_row_def digit_index_def length_digits)
qed

theorem glyph_index_in_bounds_witness:
  "list_all (\<lambda>c. c = CHR '':'' \<or>
                  is_digit c \<and> 0 \<le> digit_index c \<and> digit_index c < int (length digits))
        (timeStr 7 75 120) \<and>
   (\<exists>out. getASCIITime 7 75 120 = Inr out) \<and>
   digit_index (hd (timeStr (- 1) 0 0)) = - 3 \<and>
   getASCIITime (- 1) 0 0 = Inl (IndexOutOfRange (- 3) (length digits))"
  using glyph_index_in_bounds [of 7 75 120] glyph_index_in_bounds [of "- 1" 0 0] by simp

text \<open>
  In bytes the lines of a banner are not equally long: the rows of \<open>00:00:00\<close>.
\<close>

lemma banner_bytes_differ:
  "map length (map (padded_line (timeStr 0 0 0)) [0, 1, 2, 3, 4]) = [100, 68, 64, 68, 100]"
  by code_simp

text \<open>
  Claim C3, as the code has it. For \<open>h \<ge> 0\<close> and minutes and seconds from 0 to 59 the
  renderer returns a banner of exactly five lines joined by line breaks. Each line is
  the concatenation, over the characters of the formatted string, of the character's
  glyph row followed by one space column, so every line ends in a space. All five
  lines have the same number of characters (display columns): the sum over the
  characters of the glyph width plus one. The lengths in bytes differ, since the block
  character takes three bytes.
\<close>

theorem render_five_lines:
  assumes "0 \<le> h" "0 \<le> m" "m \<le> 59" "0 \<le> s" "s \<le> 59"
  shows "\<exists>out. getASCIITime h m s = Inr out \<and>
           length (lines_of out) = 5 \<and>
           lines_of out = map (padded_line (timeStr h m s)) [0, 1, 2, 3, 4] \<and>
           map rune_count (lines_of out)
             = replicate 5 (sum_list (map (\<lambda>c. glyph_width c + 1) (timeStr h m s))) \<and>
           out = join (lines_of out) [CHR 0x0A]"
proof -
  let ?ts = "timeStr h m s"
  let ?lines = "map (padded_line ?ts) [0, 1, 2, 3, 4]"
  from assms have tc: "list_all time_char ?ts" by (simp add: timeStr_chars)
  have out: "getASCIITime h m s = Inr (join ?lines [CHR 0x0A])"
    by (rule getASCIITime_ok [OF tc])
  have f: "\<And>row. row < 5 \<Longrightarrow> CHR 0x0A \<notin> set (padded_line ?ts row) \<and>
     rune_count (padded_line ?ts row) = sum_list (map (\<lambda>c. glyph_width c + 1) ?ts)"
    by (rule padded_line_facts [OF tc])
  have nl: "list_all (\<lambda>x. CHR 0x0A \<notin> set x) ?lines"
    using f [of 0] f [of 1] f [of 2] f [of 3] f [of 4] by simp
  have lo: "lines_of (join ?lines [CHR 0x0A]) = ?lines"
    by (rule lines_of_join [OF _ nl]) simp
  have rc: "map rune_count ?lines = replicate 5 (sum_list (map (\<lambda>c. glyph_width c + 1) ?ts))"
    using f [of 0] f [of 1] f [of 2] f [of 3] f [of 4] by (simp add: numeral_eq_Suc)
  show ?thesis
    by (rule exI [of _ "join ?lines [CHR 0x0A]"]) (simp only: out lo rc, simp)
qed

theorem render_five_lines_witness:
  "(0::int) \<le> 1 \<and> (0::int) \<le> 1 \<and> (1::int) \<le> 59 \<and> (0::int) \<le> 1 \<and> (1::int) \<le> 59 \<and>
   (\<exists>out. getASCIITime 1 1 1 = Inr out \<and>
           length (lines_of out) = 5 \<and>
           lines_of out = map (padded_line (timeStr 1 1 1)) [0, 1, 2, 3, 4] \<and>
           map rune_count (lines_of out)
             = replicate 5 (sum_list (map (\<lambda>c. glyph_width c + 1) (timeStr 1 1 1))) \<and>
           out = join (lines_of out) [CHR 0x0A])"
  using render_five_lines [of 1 1 1] by simp

text \<open>
  Claim C3, as the specification words it, does not hold: with the glyph rows only
  separated by a space column the lines would not end in a space, and the banner of
  \<open>00:00:00\<close> differs from the renderer's.
\<close>

theorem render_not_space_separated: "getASCIITime 0 0 0 \<noteq> Inr (spec_render 0 0 0)"
  by code_simp




section \<open>Pause accounting\<close>

lemma watcher_step_pause_key:
  "b = 112 \<or> b = 80 \<Longrightarrow> watcher_step oldState b now st w = (toggle now st, w, None)"
  by (auto simp: watcher_step_def)

lemma loop_pause_keys:
  "list_all (\<lambda>(b, t). (b = 112 \<or> b = 80) \<and> \<not> IsZero t) toggles \<Longrightarrow>
     loop oldState (map (\<lambda>(b, t). Key b t) toggles) st w
       = (Running, foldl (\<lambda>st t. toggle t st) st (map snd toggles), w)"
proof (induction toggles arbitrary: st)
  case Nil
  then show ?case by simp
next
  case (Cons bt toggles)
  obtain b t where bt: "bt = (b, t)" by (cases bt)
  with Cons.prems have b: "b = 112 \<or> b = 80" and rest: "list_all (\<lambda>(b, t). (b = 112 \<or> b = 80) \<and> \<not> IsZero t) toggles"
    by simp_all
  show ?case
    by (simp add: bt watcher_step_pause_key [OF b] Cons.IH [OF rest])
qed

lemma replay_toggles:
  "list_all (\<lambda>t. \<not> IsZero t) ts \<Longrightarrow> isPaused st \<longrightarrow> \<not> IsZero (pauseStart st) \<Longrightarrow>
     pausedDuration (foldl (\<lambda>st t. toggle t st) st ts)
       = pausedDuration st + completed_pauses (if isPaused st then pauseStart st # ts else ts) \<and>
     startTime (foldl (\<lambda>st t. toggle t st) st ts) = startTime st \<and>
     isPaused (foldl (\<lambda>st t. toggle t st) st ts) = (isPaused st \<noteq> odd (length ts))"
proof (induction ts arbitrary: st)
  case Nil
  then show ?case by simp
next
  case (Cons t ts)
  from Cons.prems have t: "\<not> IsZero t" and ts: "list_all (\<lambda>t. \<not> IsZero t) ts" by simp_all
  show ?case
  proof (cases "isPaused st")
    case True
    with Cons.prems(2) have p: "\<not> IsZero (pauseStart st)" by simp
    have st': "toggle t st = st\<lparr>isPaused := False, pausedDuration := pausedDuration st + (t - pauseStart st)\<rparr>"
      using True p by (simp add: toggle_def Since_def)
    have "isPaused (toggle t st) \<longrightarrow> \<not> IsZero (pauseStart (toggle t st))" by (simp add: st')
    from Cons.IH [OF ts this] True show ?thesis by (simp add: st')
  next
    case False
    have st': "toggle t st = st\<lparr>isPaused := True, pauseStart := t\<rparr>"
      using False by (simp add: toggle_def)
    have "isPaused (toggle t st) \<longrightarrow> \<not> IsZero (pauseStart (toggle t st))" using t by (simp add: st')
    from Cons.IH [OF ts this] False show ?thesis by (simp add: st')
  qed
qed

text \<open>
  Claim C4. A sequence of toggle events, each the byte \<open>'p'\<close> or \<open>'P'\<close> read at a
  known instant of the clock (no instant being the zero instant, which the watcher
  takes for "no pause begun"), is replayed through the watcher from the initial state.
  The accumulated paused duration is then the sum of resume time minus pause time
  over the completed pauses; the start time is unchanged and the timer is paused
  exactly after an odd number of toggles. In particular, with a pause at
  \<open>T0 + 5s\<close> and a resume at \<open>T0 + 8s\<close>, the elapsed time of a tick at \<open>T0 + 10s\<close>
  is 7 seconds.
\<close>

theorem pause_accounting:
  assumes "list_all (\<lambda>(b, t). (b = 112 \<or> b = 80) \<and> \<not> IsZero t) toggles"
    and "\<not> IsZero (T0 + 5 * Second)"
  shows "(\<exists>st. loop oldState (map (\<lambda>(b, t). Key b t) toggles) (initial T0) w = (Running, st, w) \<and>
            pausedDuration st = completed_pauses (map snd toggles) \<and>
            startTime st = T0 \<and>
            isPaused st = odd (length toggles)) \<and>
         (\<exists>st. loop oldState [Key 112 (T0 + 5 * Second), Key 112 (T0 + 8 * Second)] (initial T0) w
                 = (Running, st, w) \<and>
            pausedDuration st = 3 * Second \<and>
            elapsed (T0 + 10 * Second) st = 7 * Second)"
proof
  let ?st = "foldl (\<lambda>st t. toggle t st) (initial T0) (map snd toggles)"
  from assms(1) have nz: "list_all (\<lambda>t. \<not> IsZero t) (map snd toggles)"
    by (auto simp: list_all_iff)
  have i: "isPaused (initial T0) \<longrightarrow> \<not> IsZero (pauseStart (initial T0))"
    by (simp add: initial_def)
  from replay_toggles [OF nz i] loop_pause_keys [OF assms(1), of oldState "initial T0" w]
  show "\<exists>st. loop oldState (map (\<lambda>(b, t). Key b t) toggles) (initial T0) w = (Running, st, w) \<and>
            pausedDuration st = completed_pauses (map snd toggles) \<and>
            startTime st = T0 \<and>
            isPaused st = odd (length toggles)"
    by (simp add: initial_def)
next
  from assms(2) show "\<exists>st. loop oldState [Key 112 (T0 + 5 * Second), Key 112 (T0 + 8 * Second)] (initial T0) w
                 = (Running, st, w) \<and>
            pausedDuration st = 3 * Second \<and>
            elapsed (T0 + 10 * Second) st = 7 * Second"
    by (simp add: watcher_step_def toggle_def initial_def Since_def elapsed_def Let_def)
qed

theorem pause_accounting_witness:
  "(\<exists>st. loop example_termios
           [Key 112 (1005 * Second), Key 80 (1008 * Second), Key 112 (1020 * Second),
            Key 112 (1021 * Second), Key 80 (1030 * Second)]
           (initial (1000 * Second)) example_world = (Running, st, example_world) \<and>
         pausedDuration st = 4 * Second \<and>
         startTime st = 1000 * Second \<and>
         isPaused st) \<and>
   (\<exists>st. loop example_termios [Key 112 (1000 * Second + 5 * Second), Key 112 (1000 * Second + 8 * Second)]
           (initial (1000 * Second)) example_world = (Running, st, example_world) \<and>
         pausedDuration st = 3 * Second \<and>
         elapsed (1000 * Second + 10 * Second) st = 7 * Second)"
  using pause_accounting [of "[(112, 1005 * Second), (80, 1008 * Second), (112, 1020 * Second),
                 (112, 1021 * Second), (80, 1030 * Second)]" "1000 * Second" example_termios example_world]
  by (simp add: IsZero_def Second_def)

section \<open>Entering raw mode\<close>

lemma makeRaw_get_fails:
  "tcgets_errno w \<noteq> 0 \<Longrightarrow> makeRaw w = (Inl (tcgets_errno w), emit Ioctl_TCGETS w)"
  by (simp add: makeRaw_def emit_def)

lemma makeRaw_set_fails:
  "tcgets_errno w = 0 \<Longrightarrow> tcsets_errno w \<noteq> 0 \<Longrightarrow>
     makeRaw w = (Inl (tcsets_errno w), emit (Ioctl_TCSETS (raw_of (tty w))) (emit Ioctl_TCGETS w))"
  by (simp add: makeRaw_def emit_def raw_of_def Let_def)

lemma makeRaw_succeeds:
  "tcgets_errno w = 0 \<Longrightarrow> tcsets_errno w = 0 \<Longrightarrow>
     makeRaw w = (Inr (tty w),
       (emit (Ioctl_TCSETS (raw_of (tty w))) (emit Ioctl_TCGETS w))\<lparr>tty := raw_of (tty w)\<rparr>)"
  by (simp add: makeRaw_def emit_def raw_of_def Let_def)

text \<open>
  Claim C7. If the query of the terminal settings or their mutation fails at startup,
  \<open>RunTimer\<close> prints the error and returns, whatever events would follow: its effects
  are the one or two \<open>ioctl\<close> requests and the error message, the settings of the
  terminal are as before, and neither the signal handler nor the watcher nor the
  ticker has been started.
\<close>

theorem startup_failure_returns:
  assumes "tcgets_errno w \<noteq> 0 \<or> tcsets_errno w \<noteq> 0"
  shows "\<exists>err log. RunTimer now evs w = (Returned, w\<lparr>trace := trace w @ log @ [Printf_error err]\<rparr>) \<and>
           err = (if tcgets_errno w \<noteq> 0 then tcgets_errno w else tcsets_errno w) \<and>
           err \<noteq> 0 \<and>
           log = (if tcgets_errno w \<noteq> 0 then [Ioctl_TCGETS]
                  else [Ioctl_TCGETS, Ioctl_TCSETS (raw_of (tty w))]) \<and>
           Go_watcher \<notin> set log \<and> New_ticker \<notin> set log \<and> Notify_signals \<notin> set log"
proof (cases "tcgets_errno w \<noteq> 0")
  case True
  then show ?thesis
    by (simp add: RunTimer_def makeRaw_get_fails emit_def)
next
  case False
  with assms have "tcgets_errno w = 0" "tcsets_errno w \<noteq> 0" by simp_all
  then show ?thesis
    by (simp add: RunTimer_def makeRaw_set_fails emit_def)
qed

theorem startup_failure_returns_witness:
  "\<exists>err log. RunTimer (1000 * Second) [Key 112 (1005 * Second), Tick (1006 * Second)]
        (example_world\<lparr>tcgets_errno := 25\<rparr>)
       = (Returned, example_world\<lparr>tcgets_errno := 25, trace := log @ [Printf_error err]\<rparr>) \<and>
     err = 25 \<and> log = [Ioctl_TCGETS] \<and>
     Go_watcher \<notin> set log \<and> New_ticker \<notin> set log \<and> Notify_signals \<notin> set log"
  using startup_failure_returns [of "example_world\<lparr>tcgets_errno := 25\<rparr>" "1000 * Second"
      "[Key 112 (1005 * Second), Tick (1006 * Second)]"]
  by (simp add: example_world_def)

text \<open>
  Claim C10. If the query fails, \<open>makeRaw\<close> returns its error after that one request:
  no settings are written. Otherwise the settings it writes are the settings read
  with the bits \<open>ICANON\<close> and \<open>ECHO\<close> of the local flags cleared and the control
  characters \<open>VMIN\<close> set to 1 and \<open>VTIME\<close> to 0: the input, output and control
  flags, the line discipline and both speeds are those read, the local flags agree
  with those read on every other bit, and so do the control characters at every other
  index. The snapshot returned is the settings read.
\<close>

theorem makeRaw_frame:
  "(tcgets_errno w \<noteq> 0 \<longrightarrow>
      makeRaw w = (Inl (tcgets_errno w), w\<lparr>trace := trace w @ [Ioctl_TCGETS]\<rparr>)) \<and>
   (tcgets_errno w = 0 \<longrightarrow>
      (\<exists>applied.
         trace (snd (makeRaw w)) = trace w @ [Ioctl_TCGETS, Ioctl_TCSETS applied] \<and>
         applied = (tty w)\<lparr>Lflag := Lflag (tty w) AND NOT (ICANON OR ECHO),
                            Cc := (Cc (tty w))[VMIN := 1, VTIME := 0]\<rparr> \<and>
         Iflag applied = Iflag (tty w) \<and> Oflag applied = Oflag (tty w) \<and>
         Cflag applied = Cflag (tty w) \<and> Line applied = Line (tty w) \<and>
         Ispeed applied = Ispeed (tty w) \<and> Ospeed applied = Ospeed (tty w) \<and>
         Lflag applied AND (ICANON OR ECHO) = 0 \<and>
         Lflag applied OR (ICANON OR ECHO) = Lflag (tty w) OR (ICANON OR ECHO) \<and>
         length (Cc applied) = length (Cc (tty w)) \<and>
         take 5 (Cc applied) = take 5 (Cc (tty w)) \<and>
         drop 7 (Cc applied) = drop 7 (Cc (tty w)) \<and>
         (well_formed (tty w) \<longrightarrow> Cc applied ! VMIN = 1 \<and> Cc applied ! VTIME = 0) \<and>
         (tcsets_errno w = 0 \<longrightarrow> makeRaw w = (Inr (tty w), w\<lparr>trace := trace w @ [Ioctl_TCGETS, Ioctl_TCSETS applied], tty := applied\<rparr>)) \<and>
         (tcsets_errno w \<noteq> 0 \<longrightarrow> makeRaw w = (Inl (tcsets_errno w), w\<lparr>trace := trace w @ [Ioctl_TCGETS, Ioctl_TCSETS applied]\<rparr>))))"
proof (intro conjI impI)
  assume "tcgets_errno w \<noteq> 0"
  then show "makeRaw w = (Inl (tcgets_errno w), w\<lparr>trace := trace w @ [Ioctl_TCGETS]\<rparr>)"
    by (simp add: makeRaw_get_fails emit_def)
next
  assume g: "tcgets_errno w = 0"
  let ?a = "raw_of (tty w)"
  have tr: "trace (snd (makeRaw w)) = trace w @ [Ioctl_TCGETS, Ioctl_TCSETS ?a]"
    using g by (cases "tcsets_errno w = 0") (simp_all add: makeRaw_succeeds makeRaw_set_fails emit_def)
  have l1: "Lflag ?a AND (ICANON OR ECHO) = 0"
    by (rule bit_eqI) (auto simp: raw_of_def bit_simps)
  have l2: "Lflag ?a OR (ICANON OR ECHO) = Lflag (tty w) OR (ICANON OR ECHO)"
    by (rule bit_eqI) (auto simp: raw_of_def bit_simps)
  show "\<exists>applied.
         trace (snd (makeRaw w)) = trace w @ [Ioctl_TCGETS, Ioctl_TCSETS applied] \<and>
         applied = (tty w)\<lparr>Lflag := Lflag (tty w) AND NOT (ICANON OR ECHO),
                            Cc := (Cc (tty w))[VMIN := 1, VTIME := 0]\<rparr> \<and>
         Iflag applied = Iflag (tty w) \<and> Oflag applied = Oflag (tty w) \<and>
         Cflag applied = Cflag (tty w) \<and> Line applied = Line (tty w) \<and>
         Ispeed applied = Ispeed (tty w) \<and> Ospeed applied = Ospeed (tty w) \<and>
         Lflag applied AND (ICANON OR ECHO) = 0 \<and>
         Lflag applied OR (ICANON OR ECHO) = Lflag (tty w) OR (ICANON OR ECHO) \<and>
         length (Cc applied) = length (Cc (tty w)) \<and>
         take 5 (Cc applied) = take 5 (Cc (tty w)) \<and>
         drop 7 (Cc applied) = drop 7 (Cc (tty w)) \<and>
         (well_formed (tty w) \<longrightarrow> Cc applied ! VMIN = 1 \<and> Cc applied ! VTIME = 0) \<and>
         (tcsets_errno w = 0 \<longrightarrow> makeRaw w = (Inr (tty w), w\<lparr>trace := trace w @ [Ioctl_TCGETS, Ioctl_TCSETS applied], tty := applied\<rparr>)) \<and>
         (tcsets_errno w \<noteq> 0 \<longrightarrow> makeRaw w = (Inl (tcsets_errno w), w\<lparr>trace := trace w @ [Ioctl_TCGETS, Ioctl_TCSETS applied]\<rparr>))"
    apply (rule exI [of _ ?a])
    apply (intro conjI impI)
    apply (rule tr)
    apply (simp_all add: l1 l2)
    apply (simp_all add: raw_of_def VMIN_def VTIME_def well_formed_def
         makeRaw_succeeds makeRaw_set_fails g emit_def)
    done
qed

theorem makeRaw_frame_witness:
  "makeRaw (example_world\<lparr>tcgets_errno := 25\<rparr>)
     = (Inl 25, example_world\<lparr>tcgets_errno := 25, trace := [Ioctl_TCGETS]\<rparr>) \<and>
   (\<exists>applied.
      makeRaw example_world
        = (Inr example_termios,
           example_world\<lparr>trace := [Ioctl_TCGETS, Ioctl_TCSETS applied], tty := applied\<rparr>) \<and>
      applied = example_termios\<lparr>Lflag := 0x8A31,
          Cc := [3, 28, 127, 21, 4, 0, 1, 0, 17, 19, 26, 0, 18, 15, 23, 22, 0, 0, 0]\<rparr> \<and>
      well_formed example_termios \<and> Cc applied ! VMIN = 1 \<and> Cc applied ! VTIME = 0)"
proof -
  have wf: "well_formed example_termios"
    by (simp add: well_formed_def example_termios_def)
  have l: "(0x8A3B :: uint32) AND NOT (ICANON OR ECHO) = 0x8A31"
    by (simp add: ICANON_def ECHO_def)
  from makeRaw_frame [of "example_world\<lparr>tcgets_errno := 25\<rparr>"]
  have a: "makeRaw (example_world\<lparr>tcgets_errno := 25\<rparr>)
     = (Inl 25, example_world\<lparr>tcgets_errno := 25, trace := [Ioctl_TCGETS]\<rparr>)"
    by (simp add: example_world_def)
  from makeRaw_frame [of example_world] wf l
  have b: "\<exists>applied.
      makeRaw example_world
        = (Inr example_termios,
           example_world\<lparr>trace := [Ioctl_TCGETS, Ioctl_TCSETS applied], tty := applied\<rparr>) \<and>
      applied = example_termios\<lparr>Lflag := 0x8A31,
          Cc := [3, 28, 127, 21, 4, 0, 1, 0, 17, 19, 26, 0, 18, 15, 23, 22, 0, 0, 0]\<rparr> \<and>
      well_formed example_termios \<and> Cc applied ! VMIN = 1 \<and> Cc applied ! VTIME = 0"
    by (simp add: example_world_def example_termios_def VMIN_def VTIME_def)
  from a b show ?thesis by (rule conjI)
qed


section \<open>Rounding to \<open>float64\<close>\<close>






























section \<open>Decomposition into hours, minutes and seconds\<close>




end
